theory Spec2Isabelle
  imports Complex_Main
begin

section \<open>Data model\<close>

text \<open>
  The bot exists in two versions: \<^verbatim>\<open>bot.py\<close> (rate limiting only) and \<^verbatim>\<open>bot2.0.py\<close>
  (rate limiting plus per-user conversation history). Their state is a set of module-level
  \<^verbatim>\<open>defaultdict\<close>s keyed by the Telegram user id.

  Modelling choices:
  \<^item> a user id is a Python \<^verbatim>\<open>int\<close>, hence \<^typ>\<open>int\<close>;
  \<^item> \<^verbatim>\<open>time.time()\<close> is passed in as a parameter; timestamps are \<^typ>\<open>real\<close> (exact
    arithmetic stands for the float arithmetic of the source);
  \<^item> a \<^verbatim>\<open>defaultdict\<close> is a map; reading a missing key yields the default and inserts it;
  \<^item> the fixed user-facing texts (they contain emoji) are the constructors of \<open>notice\<close>;
  \<^item> the fixed notices are taken to be delivered; the call of the generation backend may
    raise or return no text, and the send of a chunk of the reply may raise: what happens
    is a parameter of the handler, of type \<open>outcome\<close>;
  \<^item> \<^verbatim>\<open>time.sleep\<close> and logging have no effect on the state and are left out.
\<close>

type_synonym user_id = int
type_synonym timestamp = real

datatype role = System | User | Assistant

record message =
  role :: role
  content :: "string option"

datatype notice =
    Welcome
  | ResetDone
  | NoHistory
  | AutoReset
  | RateLimitExceeded
  | Thinking
  | ErrorMessage

datatype action =
    Notify notice
  | SendText string
  | CallBackend "message list"

text \<open>
  What happens in the \<^verbatim>\<open>try\<close> block (\<^verbatim>\<open>bot2.0.py\<close> lines 89-121, \<^verbatim>\<open>bot.py\<close>
  lines 59-90) once the backend is called:
  \<^item> \<open>BackendError\<close>: the call, or reading \<^verbatim>\<open>response.choices[0].message.content\<close>, raises;
  \<^item> \<open>BackendNoContent\<close>: the call returns a message whose content is \<^verbatim>\<open>None\<close>, so that
    \<^verbatim>\<open>bot_response.replace\<close> raises;
  \<^item> \<open>BackendReply r\<close>: the call returns the text \<open>r\<close> and every chunk is sent;
  \<^item> \<open>BackendReplyUnsent r k\<close>: the call returns the text \<open>r\<close> and sending chunk number \<open>k\<close>
    (from 0) raises; when the reply has no such chunk, no send raises.
\<close>

datatype outcome =
    BackendError
  | BackendNoContent
  | BackendReply string
  | BackendReplyUnsent string nat

datatype decision = Allowed | Denied

subsection \<open>defaultdict\<close>

definition dd_get :: "'v \<Rightarrow> ('k \<rightharpoonup> 'v) \<Rightarrow> 'k \<Rightarrow> 'v" where
  \<comment> \<open>the value of \<^verbatim>\<open>d[k]\<close> for a defaultdict with default \<open>dflt\<close>\<close>
  "dd_get dflt d k = (case d k of None \<Rightarrow> dflt | Some v \<Rightarrow> v)"

definition dd_touch :: "'v \<Rightarrow> ('k \<rightharpoonup> 'v) \<Rightarrow> 'k \<Rightarrow> ('k \<rightharpoonup> 'v)" where
  \<comment> \<open>the dictionary after reading \<^verbatim>\<open>d[k]\<close>: a missing key is inserted with the default\<close>
  "dd_touch dflt d k = (case d k of None \<Rightarrow> d(k \<mapsto> dflt) | Some v \<Rightarrow> d)"

subsection \<open>Module state\<close>

record rate_state =
  USER_REQUEST_COUNT :: "user_id \<rightharpoonup> int"
  LAST_REQUEST_TIME :: "user_id \<rightharpoonup> timestamp"

record bot_state = rate_state +
  CONVERSATIONS :: "user_id \<rightharpoonup> message list"
  LAST_ACTIVITY :: "user_id \<rightharpoonup> timestamp"

definition REQUEST_LIMIT :: int where
  "REQUEST_LIMIT = 3"

definition INACTIVITY_TIMEOUT :: real where
  "INACTIVITY_TIMEOUT = 1800"

definition max_length :: nat where
  "max_length = 4096"

definition init :: bot_state where
  "init = \<lparr>USER_REQUEST_COUNT = Map.empty, LAST_REQUEST_TIME = Map.empty,
           CONVERSATIONS = Map.empty, LAST_ACTIVITY = Map.empty\<rparr>"

definition init_v1 :: rate_state where
  "init_v1 = \<lparr>USER_REQUEST_COUNT = Map.empty, LAST_REQUEST_TIME = Map.empty\<rparr>"

text \<open>The values a user sees of the four dictionaries.\<close>

definition request_count :: "'a rate_state_scheme \<Rightarrow> user_id \<Rightarrow> int" where
  "request_count s u = dd_get 0 (USER_REQUEST_COUNT s) u"

definition window_start :: "'a rate_state_scheme \<Rightarrow> user_id \<Rightarrow> timestamp" where
  "window_start s u = dd_get 0 (LAST_REQUEST_TIME s) u"

definition history :: "bot_state \<Rightarrow> user_id \<Rightarrow> message list" where
  "history s u = dd_get [] (CONVERSATIONS s) u"

definition last_activity :: "bot_state \<Rightarrow> user_id \<Rightarrow> timestamp" where
  "last_activity s u = dd_get 0 (LAST_ACTIVITY s) u"

section \<open>Text processing\<close>

text \<open>
  Python's \<^verbatim>\<open>str.replace(old, new)\<close>: the non-overlapping occurrences of \<open>old\<close> are
  replaced from left to right; an empty \<open>old\<close> matches before every character and at
  the end.
\<close>

fun str_replace :: "string \<Rightarrow> string \<Rightarrow> string \<Rightarrow> string" where
  "str_replace [] new s = new @ concat (map (\<lambda>c. c # new) s)"
| "str_replace (a # old) new [] = []"
| "str_replace (a # old) new (c # cs) =
     (if take (length (a # old)) (c # cs) = a # old
      then new @ str_replace (a # old) new (drop (length old) cs)
      else c # str_replace (a # old) new cs)"

definition boxed_open :: string where
  \<comment> \<open>the Python literal \<^verbatim>\<open>"\\boxed{"\<close>: a backslash followed by \<^verbatim>\<open>boxed{\<close>\<close>
  "boxed_open = CHR 0x5C # ''boxed{''"

definition clean_response :: "string \<Rightarrow> string" where
  \<comment> \<open>\<^verbatim>\<open>bot_response.replace("\\boxed{", "").replace("}", "")\<close>\<close>
  "clean_response bot_response = str_replace ''}'' [] (str_replace boxed_open [] bot_response)"

text \<open>
  \<^verbatim>\<open>for i in range(0, len(clean_response), max_length): chunk = clean_response[i:i+max_length]\<close>:
  the loop as a recursion on the text that is left.
\<close>

function chunks :: "string \<Rightarrow> string list" where
  "chunks s = (if s = [] then [] else take max_length s # chunks (drop max_length s))"
  by pat_completeness auto
termination
  by (relation "measure length") (auto simp: max_length_def)

declare chunks.simps [simp del]

section \<open>Handlers\<close>

definition start :: "'s \<Rightarrow> 's \<times> action list" where
  "start s = (s, [Notify Welcome])"

text \<open>\<^verbatim>\<open>reset\<close> (\<^verbatim>\<open>bot2.0.py\<close>, lines 52-60). The test is on the key, not on the list.\<close>

definition reset :: "user_id \<Rightarrow> timestamp \<Rightarrow> bot_state \<Rightarrow> bot_state \<times> action list" where
  "reset user_id now s =
     (if user_id \<in> dom (CONVERSATIONS s)
      then (s\<lparr>CONVERSATIONS := (CONVERSATIONS s)(user_id \<mapsto> []),
               LAST_ACTIVITY := (LAST_ACTIVITY s)(user_id \<mapsto> now)\<rparr>,
            [Notify ResetDone])
      else (s, [Notify NoHistory]))"

text \<open>
  The rate-limiting block, the same text in both versions (\<^verbatim>\<open>bot2.0.py\<close> lines 76-84,
  \<^verbatim>\<open>bot.py\<close> lines 49-57). \<open>Denied\<close> is the early \<^verbatim>\<open>return\<close>.
\<close>

definition rate_limit ::
  "user_id \<Rightarrow> timestamp \<Rightarrow> 'a rate_state_scheme \<Rightarrow> decision \<times> 'a rate_state_scheme" where
  "rate_limit user_id current_time s =
     (let s1 = s\<lparr>LAST_REQUEST_TIME := dd_touch 0 (LAST_REQUEST_TIME s) user_id\<rparr> in
      if current_time - dd_get 0 (LAST_REQUEST_TIME s) user_id < 60 then
        (let s2 = s1\<lparr>USER_REQUEST_COUNT := dd_touch 0 (USER_REQUEST_COUNT s1) user_id\<rparr> in
         if dd_get 0 (USER_REQUEST_COUNT s1) user_id \<ge> REQUEST_LIMIT then (Denied, s2)
         else (Allowed, s2\<lparr>USER_REQUEST_COUNT :=
                 (USER_REQUEST_COUNT s2)(user_id \<mapsto> dd_get 0 (USER_REQUEST_COUNT s2) user_id + 1)\<rparr>))
      else
        (let s2 = s1\<lparr>USER_REQUEST_COUNT := (USER_REQUEST_COUNT s1)(user_id \<mapsto> 0),
                     LAST_REQUEST_TIME := (LAST_REQUEST_TIME s1)(user_id \<mapsto> current_time)\<rparr> in
         (Allowed, s2\<lparr>USER_REQUEST_COUNT :=
                 (USER_REQUEST_COUNT s2)(user_id \<mapsto> dd_get 0 (USER_REQUEST_COUNT s2) user_id + 1)\<rparr>)))"

text \<open>
  The inactivity block of \<^verbatim>\<open>bot2.0.py\<close> (lines 67-73). Python's \<^verbatim>\<open>and\<close> reads
  \<^verbatim>\<open>CONVERSATIONS[user_id]\<close> only when the first test holds. The key that the read of
  \<^verbatim>\<open>LAST_ACTIVITY[user_id]\<close> inserts is assigned at line 73 in every case.
\<close>

definition expired :: "user_id \<Rightarrow> timestamp \<Rightarrow> bot_state \<Rightarrow> bool" where
  "expired user_id current_time s \<longleftrightarrow>
     current_time - dd_get 0 (LAST_ACTIVITY s) user_id > INACTIVITY_TIMEOUT
     \<and> dd_get [] (CONVERSATIONS s) user_id \<noteq> []"

definition auto_reset :: "user_id \<Rightarrow> timestamp \<Rightarrow> bot_state \<Rightarrow> bot_state \<times> action list" where
  "auto_reset user_id current_time s =
     (let late = current_time - dd_get 0 (LAST_ACTIVITY s) user_id > INACTIVITY_TIMEOUT;
          s1 = (if late then s\<lparr>CONVERSATIONS := dd_touch [] (CONVERSATIONS s) user_id\<rparr> else s);
          s2 = (if expired user_id current_time s
                then s1\<lparr>CONVERSATIONS := (CONVERSATIONS s1)(user_id \<mapsto> [])\<rparr> else s1)
      in (s2\<lparr>LAST_ACTIVITY := (LAST_ACTIVITY s2)(user_id \<mapsto> current_time)\<rparr>,
          if expired user_id current_time s then [Notify AutoReset] else []))"

definition SYSTEM_PROMPT :: message where
  "SYSTEM_PROMPT =
     \<lparr>role = System, content = Some ''You are a helpful assistant. Always reply in plain text.''\<rparr>"

definition SYSTEM_PROMPT_v1 :: message where
  "SYSTEM_PROMPT_v1 =
     \<lparr>role = System,
      content = Some ''You are a helpful assistant. Always respond in clear plain text without any special formatting, boxes, or markdown.''\<rparr>"

definition trim :: "message list \<Rightarrow> message list" where
  \<comment> \<open>lines 120-121: \<^verbatim>\<open>if len(h) > 20: h = h[-20:]\<close>\<close>
  "trim h = (if length h > 20 then drop (length h - 20) h else h)"

text \<open>
  What the user is sent from the backend's answer on (\<^verbatim>\<open>bot2.0.py\<close> lines 104-133,
  \<^verbatim>\<open>bot.py\<close> lines 80-102): the chunks of the cleaned reply, up to the send that raises,
  and the error notice of the \<^verbatim>\<open>except\<close> branch.
\<close>

fun delivery :: "outcome \<Rightarrow> action list" where
  "delivery BackendError = [Notify ErrorMessage]"
| "delivery BackendNoContent = [Notify ErrorMessage]"
| "delivery (BackendReply bot_response) = map SendText (chunks (clean_response bot_response))"
| "delivery (BackendReplyUnsent bot_response k) =
     (if k < length (chunks (clean_response bot_response))
      then map SendText (take k (chunks (clean_response bot_response))) @ [Notify ErrorMessage]
      else map SendText (chunks (clean_response bot_response)))"

text \<open>
  The rest of \<^verbatim>\<open>handle_message\<close> of \<^verbatim>\<open>bot2.0.py\<close> (lines 86-133), after admission.
  Line 107 stores the assistant turn before the reply is cleaned and sent; an exception
  raised at line 110 or 116 is caught at line 123, so the trim of lines 120-121 is skipped.
\<close>

definition exchange ::
  "user_id \<Rightarrow> string \<Rightarrow> outcome \<Rightarrow> bot_state \<Rightarrow> bot_state \<times> action list" where
  "exchange user_id user_message backend s =
     (let s1 = s\<lparr>CONVERSATIONS := (CONVERSATIONS s)(user_id \<mapsto>
                  dd_get [] (CONVERSATIONS s) user_id @ [\<lparr>role = User, content = Some user_message\<rparr>])\<rparr>;
          request = SYSTEM_PROMPT # dd_get [] (CONVERSATIONS s1) user_id;
          out = [Notify Thinking, CallBackend request] @ delivery backend;
          stored = (\<lambda>bot_response.
                     s1\<lparr>CONVERSATIONS := (CONVERSATIONS s1)(user_id \<mapsto>
                          dd_get [] (CONVERSATIONS s1) user_id
                            @ [\<lparr>role = Assistant, content = bot_response\<rparr>])\<rparr>);
          trimmed = (\<lambda>s2.
                     s2\<lparr>CONVERSATIONS := (CONVERSATIONS s2)(user_id \<mapsto>
                          trim (dd_get [] (CONVERSATIONS s2) user_id))\<rparr>)
      in case backend of
           BackendError \<Rightarrow> (s1, out)
         | BackendNoContent \<Rightarrow> (stored None, out)
         | BackendReply bot_response \<Rightarrow> (trimmed (stored (Some bot_response)), out)
         | BackendReplyUnsent bot_response k \<Rightarrow>
             (if k < length (chunks (clean_response bot_response))
              then (stored (Some bot_response), out)
              else (trimmed (stored (Some bot_response)), out)))"

definition handle_message ::
  "user_id \<Rightarrow> string \<Rightarrow> timestamp \<Rightarrow> outcome \<Rightarrow> bot_state \<Rightarrow> bot_state \<times> action list" where
  "handle_message user_id user_message current_time backend s =
     (let (s1, out1) = auto_reset user_id current_time s in
      case rate_limit user_id current_time s1 of
        (Denied, s2) \<Rightarrow> (s2, out1 @ [Notify RateLimitExceeded])
      | (Allowed, s2) \<Rightarrow>
          (let (s3, out3) = exchange user_id user_message backend s2 in (s3, out1 @ out3)))"

text \<open>\<^verbatim>\<open>handle_message\<close> of \<^verbatim>\<open>bot.py\<close>: no history, the request holds the one message.\<close>

definition handle_message_v1 ::
  "user_id \<Rightarrow> string \<Rightarrow> timestamp \<Rightarrow> outcome \<Rightarrow> rate_state \<Rightarrow> rate_state \<times> action list" where
  "handle_message_v1 user_id text current_time backend s =
     (case rate_limit user_id current_time s of
        (Denied, s1) \<Rightarrow> (s1, [Notify RateLimitExceeded])
      | (Allowed, s1) \<Rightarrow>
          (let request = [SYSTEM_PROMPT_v1, \<lparr>role = User, content = Some text\<rparr>]
           in (s1, [Notify Thinking, CallBackend request] @ delivery backend)))"

section \<open>Runs of the bot\<close>

datatype event =
    Start user_id
  | Reset user_id timestamp
  | Message user_id string timestamp outcome

fun step :: "bot_state \<Rightarrow> event \<Rightarrow> bot_state \<times> action list" where
  "step s (Start u) = start s"
| "step s (Reset u now) = reset u now s"
| "step s (Message u txt now b) = handle_message u txt now b s"

definition run :: "bot_state \<Rightarrow> event list \<Rightarrow> bot_state" where
  "run s evs = foldl (\<lambda>s e. fst (step s e)) s evs"

inductive reachable :: "bot_state \<Rightarrow> bool" where
  reachable_init: "reachable init"
| reachable_step: "reachable s \<Longrightarrow> reachable (fst (step s e))"


text \<open>A sequence of admission decisions for one user, at the given times.\<close>

fun admits ::
  "user_id \<Rightarrow> timestamp list \<Rightarrow> 'a rate_state_scheme \<Rightarrow> decision list \<times> 'a rate_state_scheme" where
  "admits u [] s = ([], s)"
| "admits u (t # ts) s =
     (fst (rate_limit u t s) # fst (admits u ts (snd (rate_limit u t s))),
      snd (admits u ts (snd (rate_limit u t s))))"

text \<open>
  A conversation of one user: each entry is a message text, its arrival time and the text
  the backend replies. \<open>successful\<close> says that every message is admitted by the rate
  limiter and finds the session not expired, \<open>admitted\<close> only that every message is
  admitted; \<open>pairs\<close> lists the turns of the conversation.
\<close>

definition exchanges :: "user_id \<Rightarrow> (string \<times> timestamp \<times> string) list \<Rightarrow> event list" where
  "exchanges u xs = map (\<lambda>(m, t, r). Message u m t (BackendReply r)) xs"

fun pairs :: "(string \<times> timestamp \<times> string) list \<Rightarrow> message list" where
  "pairs [] = []"
| "pairs ((m, t, r) # xs) =
     \<lparr>role = User, content = Some m\<rparr> # \<lparr>role = Assistant, content = Some r\<rparr> # pairs xs"

fun successful :: "user_id \<Rightarrow> bot_state \<Rightarrow> (string \<times> timestamp \<times> string) list \<Rightarrow> bool" where
  "successful u s [] = True"
| "successful u s ((m, t, r) # xs) =
     (fst (rate_limit u t s) = Allowed \<and> \<not> expired u t s
      \<and> successful u (fst (handle_message u m t (BackendReply r) s)) xs)"

fun admitted :: "user_id \<Rightarrow> bot_state \<Rightarrow> (string \<times> timestamp \<times> string) list \<Rightarrow> bool" where
  "admitted u s [] = True"
| "admitted u s ((m, t, r) # xs) =
     (fst (rate_limit u t s) = Allowed
      \<and> admitted u (fst (handle_message u m t (BackendReply r) s)) xs)"

text \<open>
  Sample conversations: ten messages, 100 seconds apart, each answered; and eleven
  messages, each answered, with 2100 seconds between the fifth and the sixth.
\<close>


definition ten_exchanges :: "(string \<times> timestamp \<times> string) list" where
  "ten_exchanges =
     [(''m1'', 100, ''r1''), (''m2'', 200, ''r2''), (''m3'', 300, ''r3''), (''m4'', 400, ''r4''),
      (''m5'', 500, ''r5''), (''m6'', 600, ''r6''), (''m7'', 700, ''r7''), (''m8'', 800, ''r8''),
      (''m9'', 900, ''r9''), (''m10'', 1000, ''r10'')]"

definition gap_exchanges :: "(string \<times> timestamp \<times> string) list" where
  "gap_exchanges =
     [(''m1'', 100, ''r1''), (''m2'', 200, ''r2''), (''m3'', 300, ''r3''), (''m4'', 400, ''r4''),
      (''m5'', 500, ''r5''), (''m6'', 2600, ''r6''), (''m7'', 2700, ''r7''),
      (''m8'', 2800, ''r8''), (''m9'', 2900, ''r9''), (''m10'', 3000, ''r10''),
      (''m11'', 3100, ''r11'')]"

section \<open>Vocabulary of the claims\<close>


section \<open>Effects of the handlers on what a user sees\<close>

lemma rate_limit_decision:
  "fst (rate_limit u t s) =
     (if t - window_start s u < 60 \<and> request_count s u \<ge> REQUEST_LIMIT then Denied else Allowed)"
  by (simp add: rate_limit_def window_start_def request_count_def Let_def)

lemma rate_limit_count:
  "request_count (snd (rate_limit u t s)) v =
     (if v \<noteq> u then request_count s v
      else if t - window_start s u < 60
      then (if request_count s u \<ge> REQUEST_LIMIT then request_count s u else request_count s u + 1)
      else 1)"
  by (simp add: rate_limit_def window_start_def request_count_def Let_def dd_get_def dd_touch_def
      split: option.splits)

lemma rate_limit_window:
  "window_start (snd (rate_limit u t s)) v =
     (if v = u \<and> \<not> t - window_start s u < 60 then t else window_start s v)"
  by (simp add: rate_limit_def window_start_def request_count_def Let_def dd_get_def dd_touch_def
      split: option.splits)

lemma rate_limit_more:
  "rate_state.more (snd (rate_limit u t s)) = rate_state.more s"
  by (simp add: rate_limit_def Let_def)

lemma rate_limit_CONVERSATIONS:
  "CONVERSATIONS (snd (rate_limit u t s)) = CONVERSATIONS s"
  "LAST_ACTIVITY (snd (rate_limit u t s)) = LAST_ACTIVITY s"
  by (simp_all add: rate_limit_def Let_def)

lemma auto_reset_rate:
  "USER_REQUEST_COUNT (fst (auto_reset u t s)) = USER_REQUEST_COUNT s"
  "LAST_REQUEST_TIME (fst (auto_reset u t s)) = LAST_REQUEST_TIME s"
  by (simp_all add: auto_reset_def Let_def)

lemma auto_reset_views:
  "request_count (fst (auto_reset u t s)) = request_count s"
  "window_start (fst (auto_reset u t s)) = window_start s"
  by (simp_all add: request_count_def window_start_def auto_reset_rate fun_eq_iff)

lemma auto_reset_history:
  "history (fst (auto_reset u t s)) v = (if v = u \<and> expired u t s then [] else history s v)"
  by (simp add: auto_reset_def Let_def history_def dd_get_def dd_touch_def split: option.splits)

lemma auto_reset_last_activity:
  "last_activity (fst (auto_reset u t s)) v = (if v = u then t else last_activity s v)"
  by (simp add: auto_reset_def Let_def last_activity_def dd_get_def)

lemma auto_reset_out:
  "snd (auto_reset u t s) = (if expired u t s then [Notify AutoReset] else [])"
  by (simp add: auto_reset_def Let_def)

lemma exchange_rate:
  "USER_REQUEST_COUNT (fst (exchange u m b s)) = USER_REQUEST_COUNT s"
  "LAST_REQUEST_TIME (fst (exchange u m b s)) = LAST_REQUEST_TIME s"
  "LAST_ACTIVITY (fst (exchange u m b s)) = LAST_ACTIVITY s"
  by (simp_all add: exchange_def Let_def split: outcome.splits)

lemma exchange_history:
  "history (fst (exchange u m b s)) v =
     (if v \<noteq> u then history s v
      else case b of
          BackendError \<Rightarrow> history s u @ [\<lparr>role = User, content = Some m\<rparr>]
        | BackendNoContent \<Rightarrow>
            history s u @ [\<lparr>role = User, content = Some m\<rparr>, \<lparr>role = Assistant, content = None\<rparr>]
        | BackendReply r \<Rightarrow>
            trim (history s u @ [\<lparr>role = User, content = Some m\<rparr>, \<lparr>role = Assistant, content = Some r\<rparr>])
        | BackendReplyUnsent r k \<Rightarrow>
            (if k < length (chunks (clean_response r))
             then history s u @ [\<lparr>role = User, content = Some m\<rparr>, \<lparr>role = Assistant, content = Some r\<rparr>]
             else trim (history s u @ [\<lparr>role = User, content = Some m\<rparr>, \<lparr>role = Assistant, content = Some r\<rparr>])))"
  by (simp add: exchange_def Let_def history_def dd_get_def split: outcome.splits)

lemma exchange_out:
  "snd (exchange u m b s) =
     [Notify Thinking, CallBackend (SYSTEM_PROMPT # history s u @ [\<lparr>role = User, content = Some m\<rparr>])]
       @ delivery b"
  by (simp add: exchange_def Let_def history_def dd_get_def split: outcome.splits)

lemma rate_limit_auto_reset:
  "fst (rate_limit u t (fst (auto_reset u t s))) = fst (rate_limit u t s)"
  by (simp add: rate_limit_decision auto_reset_views)

lemma handle_message_denied:
  assumes "fst (rate_limit u t s) = Denied"
  shows "handle_message u m t b s =
           (snd (rate_limit u t (fst (auto_reset u t s))),
            snd (auto_reset u t s) @ [Notify RateLimitExceeded])"
proof -
  obtain s1 out1 where a: "auto_reset u t s = (s1, out1)" by (cases "auto_reset u t s")
  obtain d s2 where r: "rate_limit u t s1 = (d, s2)" by (cases "rate_limit u t s1")
  have "d = Denied" using assms rate_limit_auto_reset[of u t s] a r by simp
  then show ?thesis by (simp add: handle_message_def a r)
qed

lemma handle_message_allowed:
  assumes "fst (rate_limit u t s) = Allowed"
  shows "handle_message u m t b s =
           (fst (exchange u m b (snd (rate_limit u t (fst (auto_reset u t s))))),
            snd (auto_reset u t s)
              @ snd (exchange u m b (snd (rate_limit u t (fst (auto_reset u t s))))))"
proof -
  obtain s1 out1 where a: "auto_reset u t s = (s1, out1)" by (cases "auto_reset u t s")
  obtain d s2 where r: "rate_limit u t s1 = (d, s2)" by (cases "rate_limit u t s1")
  have "d = Allowed" using assms rate_limit_auto_reset[of u t s] a r by simp
  then show ?thesis by (simp add: handle_message_def a r split: prod.splits)
qed

lemma rate_limit_history:
  "history (snd (rate_limit u t s)) = history s"
  "last_activity (snd (rate_limit u t s)) = last_activity s"
  by (simp_all add: history_def last_activity_def rate_limit_CONVERSATIONS fun_eq_iff)

lemma exchange_views:
  "request_count (fst (exchange u m b s)) = request_count s"
  "window_start (fst (exchange u m b s)) = window_start s"
  "last_activity (fst (exchange u m b s)) = last_activity s"
  by (simp_all add: request_count_def window_start_def last_activity_def exchange_rate fun_eq_iff)

lemma handle_message_request_count:
  "request_count (fst (handle_message u m t b s)) v = request_count (snd (rate_limit u t s)) v"
  by (cases "fst (rate_limit u t s)")
     (simp_all add: handle_message_denied handle_message_allowed exchange_views
        rate_limit_count auto_reset_views)

lemma handle_message_window_start:
  "window_start (fst (handle_message u m t b s)) v = window_start (snd (rate_limit u t s)) v"
  by (cases "fst (rate_limit u t s)")
     (simp_all add: handle_message_denied handle_message_allowed exchange_views
        rate_limit_window auto_reset_views)

lemma reset_views:
  "request_count (fst (reset u t s)) = request_count s"
  "window_start (fst (reset u t s)) = window_start s"
  by (simp_all add: reset_def request_count_def window_start_def fun_eq_iff)

lemma step_request_count_le:
  assumes "\<forall>v. request_count s v \<le> REQUEST_LIMIT"
  shows "request_count (fst (step s e)) v \<le> REQUEST_LIMIT"
proof (cases e)
  case (Start u)
  then show ?thesis using assms by (simp add: start_def)
next
  case (Reset u now)
  then show ?thesis using assms by (simp add: reset_views)
next
  case (Message u m now b)
  have "request_count (snd (rate_limit u now s)) v \<le> REQUEST_LIMIT"
    using assms[rule_format, of v] assms[rule_format, of u]
    by (simp add: rate_limit_count REQUEST_LIMIT_def)
  then show ?thesis using Message by (simp add: handle_message_request_count)
qed

lemma reachable_request_count_le:
  "reachable s \<Longrightarrow> \<forall>v. request_count s v \<le> REQUEST_LIMIT"
proof (induction rule: reachable.induct)
  case reachable_init
  show ?case by (simp add: init_def request_count_def dd_get_def REQUEST_LIMIT_def)
next
  case (reachable_step s e)
  then show ?case by (simp add: step_request_count_le)
qed

lemma handle_message_v1_state:
  "fst (handle_message_v1 u m t b s) = snd (rate_limit u t s)"
  by (cases "rate_limit u t s")
     (simp add: handle_message_v1_def Let_def split: decision.splits outcome.splits)

lemma handle_message_v1_out:
  "snd (handle_message_v1 u m t b s) =
     (case fst (rate_limit u t s) of
        Denied \<Rightarrow> [Notify RateLimitExceeded]
      | Allowed \<Rightarrow>
          [Notify Thinking, CallBackend [SYSTEM_PROMPT_v1, \<lparr>role = User, content = Some m\<rparr>]]
            @ delivery b)"
  by (cases "rate_limit u t s")
     (simp add: handle_message_v1_def Let_def split: decision.splits outcome.splits)

lemma handle_message_out:
  "snd (handle_message u m t b s) =
     (if expired u t s then [Notify AutoReset] else [])
       @ (case fst (rate_limit u t s) of
            Denied \<Rightarrow> [Notify RateLimitExceeded]
          | Allowed \<Rightarrow>
              [Notify Thinking,
               CallBackend (SYSTEM_PROMPT # (if expired u t s then [] else history s u)
                              @ [\<lparr>role = User, content = Some m\<rparr>])]
                @ delivery b)"
  by (cases "fst (rate_limit u t s)")
     (simp_all add: handle_message_denied handle_message_allowed auto_reset_out exchange_out
        rate_limit_history auto_reset_history)

lemma admits_in_window:
  assumes "\<forall>t\<in>set ts. t - window_start s u < 60"
    and "request_count s u \<le> REQUEST_LIMIT"
  shows "fst (admits u ts s) =
           replicate (min (nat (REQUEST_LIMIT - request_count s u)) (length ts)) Allowed
             @ replicate (length ts - nat (REQUEST_LIMIT - request_count s u)) Denied"
  using assms
proof (induction ts arbitrary: s)
  case Nil
  show ?case by simp
next
  case (Cons t ts)
  let ?s' = "snd (rate_limit u t s)"
  have w: "window_start ?s' u = window_start s u"
    using Cons.prems by (simp add: rate_limit_window)
  have c: "request_count ?s' u =
             (if REQUEST_LIMIT \<le> request_count s u then request_count s u else request_count s u + 1)"
    using Cons.prems by (simp add: rate_limit_count)
  have d: "fst (rate_limit u t s) = (if REQUEST_LIMIT \<le> request_count s u then Denied else Allowed)"
    using Cons.prems by (simp add: rate_limit_decision)
  have ih: "fst (admits u ts ?s') =
           replicate (min (nat (REQUEST_LIMIT - request_count ?s' u)) (length ts)) Allowed
             @ replicate (length ts - nat (REQUEST_LIMIT - request_count ?s' u)) Denied"
    using Cons.prems by (intro Cons.IH) (simp_all add: w c)
  show ?case
  proof (cases "REQUEST_LIMIT \<le> request_count s u")
    case True
    then show ?thesis using ih c d Cons.prems(2) by (simp add: replicate_app_Cons_same)
  next
    case False
    then have n: "nat (REQUEST_LIMIT - request_count s u) = Suc (nat (REQUEST_LIMIT - (request_count s u + 1)))"
      by simp
    from False show ?thesis using ih c d by (simp add: n del: replicate_Suc) (simp add: Suc_diff_le)
  qed
qed

lemma expired_iff:
  "expired u t s \<longleftrightarrow> INACTIVITY_TIMEOUT < t - last_activity s u \<and> history s u \<noteq> []"
  by (simp add: expired_def last_activity_def history_def)

lemma handle_message_history:
  "history (fst (handle_message u m t b s)) v =
     (if v \<noteq> u then history s v
      else case fst (rate_limit u t s) of
        Denied \<Rightarrow> (if expired u t s then [] else history s u)
      | Allowed \<Rightarrow>
          (case b of
              BackendError \<Rightarrow> (if expired u t s then [] else history s u) @ [\<lparr>role = User, content = Some m\<rparr>]
            | BackendNoContent \<Rightarrow>
                (if expired u t s then [] else history s u) @ [\<lparr>role = User, content = Some m\<rparr>, \<lparr>role = Assistant, content = None\<rparr>]
            | BackendReply r \<Rightarrow>
                trim ((if expired u t s then [] else history s u) @ [\<lparr>role = User, content = Some m\<rparr>, \<lparr>role = Assistant, content = Some r\<rparr>])
            | BackendReplyUnsent r k \<Rightarrow>
                (if k < length (chunks (clean_response r))
                 then (if expired u t s then [] else history s u) @ [\<lparr>role = User, content = Some m\<rparr>, \<lparr>role = Assistant, content = Some r\<rparr>]
                 else trim ((if expired u t s then [] else history s u) @ [\<lparr>role = User, content = Some m\<rparr>, \<lparr>role = Assistant, content = Some r\<rparr>]))))"
  by (cases "fst (rate_limit u t s)")
     (simp_all add: handle_message_denied handle_message_allowed exchange_history
        rate_limit_history auto_reset_history split: outcome.splits)

lemma handle_message_last_activity:
  "last_activity (fst (handle_message u m t b s)) v = (if v = u then t else last_activity s v)"
  by (cases "fst (rate_limit u t s)")
     (simp_all add: handle_message_denied handle_message_allowed exchange_views
        rate_limit_history auto_reset_last_activity)

lemma reset_history:
  "history (fst (reset u t s)) v = (if v = u then [] else history s v)"
  by (auto simp: reset_def history_def dd_get_def split: option.splits)

lemma reset_last_activity:
  "last_activity (fst (reset u t s)) v =
     (if v = u \<and> CONVERSATIONS s u \<noteq> None then t else last_activity s v)"
  by (auto simp: reset_def last_activity_def dd_get_def split: option.splits)

section \<open>Chunks, sent text and trimming\<close>




lemma trim_drop: "trim h = drop (length h - 20) h"
  by (simp add: trim_def)

lemma length_trim: "length (trim h) \<le> 20"
  by (simp add: trim_def)


lemma trim_trim_append: "trim (trim a @ b) = trim (a @ b)"
proof -
  have "length a + length b - (length a - 20 + 20) + (length a - 20) = length a + length b - 20"
    by arith
  then show ?thesis by (simp add: trim_drop)
qed

section \<open>Runs and evaluation\<close>

lemma run_Nil: "run s [] = s"
  by (simp add: run_def)

lemma run_Cons: "run s (e # es) = run (fst (step s e)) es"
  by (simp add: run_def)

lemma reachable_run: "reachable s \<Longrightarrow> reachable (run s evs)"
  by (induction evs arbitrary: s) (simp_all add: run_Nil run_Cons reachable_step)

lemma init_views:
  "request_count init u = 0" "window_start init u = 0"
  "history init u = []" "last_activity init u = 0"
  by (simp_all add: init_def request_count_def window_start_def history_def last_activity_def
        dd_get_def)


lemmas eval_views =
  run_Nil run_Cons init_views
  rate_limit_decision rate_limit_count rate_limit_window rate_limit_history
  handle_message_request_count handle_message_window_start
  handle_message_history handle_message_last_activity handle_message_out
  reset_views reset_history reset_last_activity
  expired_iff REQUEST_LIMIT_def INACTIVITY_TIMEOUT_def

lemma handle_message_entry:
  "fst (rate_limit u t s) = Allowed \<Longrightarrow> CONVERSATIONS (fst (handle_message u m t b s)) u \<noteq> None"
  by (simp add: handle_message_allowed exchange_def Let_def split: outcome.splits)

lemma reset_entry: "CONVERSATIONS s u \<noteq> None \<Longrightarrow> CONVERSATIONS (fst (reset v t s)) u \<noteq> None"
  by (simp add: reset_def)

lemma reset_out:
  "snd (reset u t s) = (if CONVERSATIONS s u \<noteq> None then [Notify ResetDone] else [Notify NoHistory])"
  by (auto simp: reset_def)

section \<open>Conversations\<close>

lemma length_pairs: "length (pairs xs) = 2 * length xs"
  by (induction xs rule: pairs.induct) simp_all

lemma exchanges_simps:
  "exchanges u [] = []"
  "exchanges u ((m, t, r) # xs) = Message u m t (BackendReply r) # exchanges u xs"
  by (simp_all add: exchanges_def)

lemma history_successful:
  "successful u s xs \<Longrightarrow>
     history (run s (exchanges u xs)) u =
       (if xs = [] then history s u else trim (history s u @ pairs xs))"
proof (induction u s xs rule: successful.induct)
  case (1 u s)
  show ?case by (simp add: exchanges_simps run_Nil)
next
  case (2 u s m t r xs)
  let ?s' = "fst (handle_message u m t (BackendReply r) s)"
  from "2.prems" have ok: "fst (rate_limit u t s) = Allowed" "\<not> expired u t s"
    and rest: "successful u ?s' xs" by simp_all
  have h': "history ?s' u =
      trim (history s u @ [\<lparr>role = User, content = Some m\<rparr>, \<lparr>role = Assistant, content = Some r\<rparr>])"
    using ok by (simp add: handle_message_history)
  have ih: "history (run ?s' (exchanges u xs)) u =
       (if xs = [] then history ?s' u else trim (history ?s' u @ pairs xs))"
    using rest by (rule "2.IH")
  show ?case
  proof (cases "xs = []")
    case True
    then show ?thesis using h' by (simp add: exchanges_simps run_Nil run_Cons)
  next
    case False
    then show ?thesis using ih h'
      by (simp add: exchanges_simps run_Cons trim_trim_append)
  qed
qed

lemma not_expired_recent:
  "t - last_activity s u \<le> 1800 \<Longrightarrow> expired u t s = False"
  by (simp add: expired_iff INACTIVITY_TIMEOUT_def)

lemmas eval_rate =
  init_views rate_limit_decision rate_limit_count rate_limit_window
  handle_message_request_count handle_message_window_start handle_message_last_activity
  REQUEST_LIMIT_def

lemma run_append: "run s (es @ fs) = run (run s es) fs"
  by (simp add: run_def)

lemma successful_ten: "successful 7 init ten_exchanges"
  by (simp add: ten_exchanges_def eval_rate not_expired_recent)

lemma successful_after_first:
  "successful 7 (fst (handle_message 7 ''m0'' 10 (BackendReply ''r0'') init)) ten_exchanges"
  by (simp add: ten_exchanges_def eval_rate not_expired_recent)

lemma exchanges_append: "exchanges u (xs @ ys) = exchanges u xs @ exchanges u ys"
  by (simp add: exchanges_def)

lemma delivery_no_rate_limit_notice: "Notify RateLimitExceeded \<notin> set (delivery b)"
  by (cases b) (auto dest: in_set_takeD)

lemma after_ten_rate:
  "window_start (run init (exchanges 7 ten_exchanges)) 7 = 1000"
  "request_count (run init (exchanges 7 ten_exchanges)) 7 = 1"
  "last_activity (run init (exchanges 7 ten_exchanges)) 7 = 1000"
  by (simp_all add: ten_exchanges_def exchanges_simps run_Nil run_Cons eval_rate)

section \<open>Cleaning a reply\<close>














section \<open>The claims\<close>

text \<open>
  C1. Rate limiting, three requests per window. In every reachable state the request count
  of every user is at most \<open>REQUEST_LIMIT\<close>. A denied request leaves the user's count and
  window start as they were, in the rate-limiting block and in the whole handler. When a
  request opens a window (it finds the count at 0, or arrives 60 seconds or more after the
  window start) and the following requests of that user arrive less than 60 seconds after
  the window start, the first three requests are allowed and every later one is denied.
\<close>

theorem three_per_window:
  fixes s s0 :: bot_state and r r0 :: "'a rate_state_scheme"
  shows
  "(reachable s0 \<longrightarrow> request_count s0 u \<le> REQUEST_LIMIT)
   \<and> (fst (rate_limit u t r) = Denied \<longrightarrow>
        request_count (snd (rate_limit u t r)) u = request_count r u
        \<and> window_start (snd (rate_limit u t r)) u = window_start r u)
   \<and> (fst (rate_limit u t s) = Denied \<longrightarrow>
        Notify RateLimitExceeded \<in> set (snd (handle_message u m t b s))
        \<and> request_count (fst (handle_message u m t b s)) u = request_count s u
        \<and> window_start (fst (handle_message u m t b s)) u = window_start s u)
   \<and> ((request_count r0 u = 0 \<or> 60 \<le> t1 - window_start r0 u)
        \<and> (\<forall>t'\<in>set ts. t' - window_start (snd (rate_limit u t1 r0)) u < 60) \<longrightarrow>
        fst (admits u (t1 # ts) r0) =
          replicate (min 3 (length (t1 # ts))) Allowed @ replicate (length (t1 # ts) - 3) Denied)"
proof (intro conjI impI)
  assume "reachable s0"
  then show "request_count s0 u \<le> REQUEST_LIMIT"
    by (simp add: reachable_request_count_le)
next
  assume d: "fst (rate_limit u t r) = Denied"
  then have "t - window_start r u < 60 \<and> REQUEST_LIMIT \<le> request_count r u"
    by (simp add: rate_limit_decision split: if_splits)
  then show "request_count (snd (rate_limit u t r)) u = request_count r u"
    and "window_start (snd (rate_limit u t r)) u = window_start r u"
    by (simp_all add: rate_limit_count rate_limit_window)
next
  assume d: "fst (rate_limit u t s) = Denied"
  then have w: "t - window_start s u < 60 \<and> REQUEST_LIMIT \<le> request_count s u"
    by (simp add: rate_limit_decision split: if_splits)
  show "Notify RateLimitExceeded \<in> set (snd (handle_message u m t b s))"
    using d by (simp add: handle_message_out)
  show "request_count (fst (handle_message u m t b s)) u = request_count s u"
    using w by (simp add: handle_message_request_count rate_limit_count)
  show "window_start (fst (handle_message u m t b s)) u = window_start s u"
    using w by (simp add: handle_message_window_start rate_limit_window)
next
  assume a: "(request_count r0 u = 0 \<or> 60 \<le> t1 - window_start r0 u)
        \<and> (\<forall>t'\<in>set ts. t' - window_start (snd (rate_limit u t1 r0)) u < 60)"
  let ?r1 = "snd (rate_limit u t1 r0)"
  from a have first: "fst (rate_limit u t1 r0) = Allowed"
    by (auto simp: rate_limit_decision REQUEST_LIMIT_def)
  from a have one: "request_count ?r1 u = 1"
    by (auto simp: rate_limit_count REQUEST_LIMIT_def)
  have "fst (admits u ts ?r1) =
           replicate (min (nat (REQUEST_LIMIT - request_count ?r1 u)) (length ts)) Allowed
             @ replicate (length ts - nat (REQUEST_LIMIT - request_count ?r1 u)) Denied"
    using a by (intro admits_in_window) (simp_all add: one REQUEST_LIMIT_def)
  then have rest: "fst (admits u ts ?r1) =
      replicate (min 2 (length ts)) Allowed @ replicate (length ts - 2) Denied"
    by (simp add: one REQUEST_LIMIT_def)
  have "min 3 (Suc (length ts)) = Suc (min 2 (length ts))" by simp
  then show "fst (admits u (t1 # ts) r0) =
          replicate (min 3 (length (t1 # ts))) Allowed @ replicate (length (t1 # ts) - 3) Denied"
    using first rest by (simp add: numeral_3_eq_3 numeral_2_eq_2)
qed

theorem three_per_window_witness:
  "reachable init \<and> request_count init 7 \<le> REQUEST_LIMIT
   \<and> fst (rate_limit 7 130 (snd (admits 7 [100, 110, 120] init))) = Denied
   \<and> request_count (snd (rate_limit 7 130 (snd (admits 7 [100, 110, 120] init)))) 7 = 3
   \<and> window_start (snd (rate_limit 7 130 (snd (admits 7 [100, 110, 120] init)))) 7 = 100
   \<and> Notify RateLimitExceeded
        \<in> set (snd (handle_message 7 ''hi'' 130 BackendError (snd (admits 7 [100, 110, 120] init))))
   \<and> (request_count init 7 = 0 \<or> 60 \<le> 100 - window_start init 7)
   \<and> 110 - window_start (snd (rate_limit 7 100 init)) 7 < 60
   \<and> 120 - window_start (snd (rate_limit 7 100 init)) 7 < 60
   \<and> 130 - window_start (snd (rate_limit 7 100 init)) 7 < 60
   \<and> fst (admits 7 [100, 110, 120, 130] init) = [Allowed, Allowed, Allowed, Denied]"
proof -
  let ?s1 = "snd (rate_limit 7 100 init)"
  let ?s2 = "snd (rate_limit 7 110 ?s1)"
  let ?s3 = "snd (rate_limit 7 120 ?s2)"
  have c0: "request_count init 7 = 0" and w0: "window_start init 7 = 0"
    by (simp_all add: init_def request_count_def window_start_def dd_get_def)
  have c1: "request_count ?s1 7 = 1" and w1: "window_start ?s1 7 = 100"
    by (simp_all add: rate_limit_count rate_limit_window c0 w0)
  have c2: "request_count ?s2 7 = 2" and w2: "window_start ?s2 7 = 100"
    by (simp_all add: rate_limit_count rate_limit_window c0 w0 c1 w1 REQUEST_LIMIT_def)
  have c3: "request_count ?s3 7 = 3" and w3: "window_start ?s3 7 = 100"
    by (simp_all add: rate_limit_count rate_limit_window c0 w0 c1 w1 c2 w2 REQUEST_LIMIT_def)
  have d: "fst (rate_limit 7 130 ?s3) = Denied"
    by (simp add: rate_limit_decision c0 w0 c1 w1 c2 w2 c3 w3 REQUEST_LIMIT_def)
  have a: "snd (admits 7 [100, 110, 120] init) = ?s3"
    by simp
  note inst = three_per_window [where ?s0.0 = init and u = 7 and t = 130 and r = ?s3 and s = ?s3
      and m = "''hi''" and b = BackendError and ?r0.0 = init and ?t1.0 = 100 and ts = "[110, 120, 130]"]
  show ?thesis
    unfolding a using inst reachable_init d c0 w0 w1 c3 w3
    by (simp add: numeral_3_eq_3 REQUEST_LIMIT_def c1 c2 w2)
qed

text \<open>
  C2, amended. After every message that the rate limiter admits and whose handling runs to
  the end of the \<^verbatim>\<open>try\<close> block (the backend returns a reply text and every chunk of it is
  sent), the history of the user has at most 20 entries: it is the history found (emptied
  first when the session had expired), followed by the new user turn and the assistant
  turn, cut to its last 20 entries, so the oldest turns go first. The cut is made at that
  point only: the user turn is appended without it.
\<close>

theorem history_bounded_after_reply:
  "fst (rate_limit u t s) = Allowed \<longrightarrow>
     length (history (fst (handle_message u m t (BackendReply r) s)) u) \<le> 20
     \<and> history (fst (handle_message u m t (BackendReply r) s)) u =
         drop (length (if expired u t s then [] else history s u) + 2 - 20)
           ((if expired u t s then [] else history s u)
              @ [\<lparr>role = User, content = Some m\<rparr>, \<lparr>role = Assistant, content = Some r\<rparr>])"
  by (simp add: handle_message_history length_trim) (simp add: trim_drop)

theorem history_bounded_after_reply_witness:
  "fst (rate_limit 7 1100 (run init (exchanges 7 ten_exchanges))) = Allowed
   \<and> length (history (run init (exchanges 7 ten_exchanges)) 7) = 20
   \<and> length (history (fst (handle_message 7 ''m11'' 1100 (BackendReply ''r11'')
               (run init (exchanges 7 ten_exchanges)))) 7) \<le> 20
   \<and> history (fst (handle_message 7 ''m11'' 1100 (BackendReply ''r11'')
               (run init (exchanges 7 ten_exchanges)))) 7
       = drop 2 (history (run init (exchanges 7 ten_exchanges)) 7
                  @ [\<lparr>role = User, content = Some ''m11''\<rparr>, \<lparr>role = Assistant, content = Some ''r11''\<rparr>])"
proof -
  let ?s = "run init (exchanges 7 ten_exchanges)"
  have h: "history ?s 7 = trim (pairs ten_exchanges)"
    using history_successful [OF successful_ten] by (simp add: init_views ten_exchanges_def)
  have l: "length (history ?s 7) = 20"
    unfolding h by (simp add: trim_def length_pairs) (simp add: ten_exchanges_def)
  have a: "fst (rate_limit 7 1100 ?s) = Allowed"
    by (simp add: rate_limit_decision after_ten_rate)
  have e: "\<not> expired 7 1100 ?s"
    by (simp add: not_expired_recent after_ten_rate)
  show ?thesis
    using history_bounded_after_reply [of 7 1100 ?s "''m11''" "''r11''"] a e l by simp
qed

text \<open>
  C2 as first stated, with at most 20 entries after every mutation, fails. After ten
  answered exchanges the history holds 20 turns; an eleventh message, admitted, whose
  backend call fails, leaves 21.
\<close>

theorem history_exceeds_cap:
  "length (history
     (run init (exchanges 7 ten_exchanges @ [Message 7 ''m11'' 1100 BackendError])) 7) = 21"
proof -
  let ?s = "run init (exchanges 7 ten_exchanges)"
  have h: "history ?s 7 = trim (pairs ten_exchanges)"
    using history_successful [OF successful_ten] by (simp add: init_views ten_exchanges_def)
  have l: "length (history ?s 7) = 20"
    unfolding h by (simp add: trim_def length_pairs) (simp add: ten_exchanges_def)
  have a: "fst (rate_limit 7 1100 ?s) = Allowed"
    by (simp add: rate_limit_decision after_ten_rate)
  have e: "\<not> expired 7 1100 ?s"
    by (simp add: not_expired_recent after_ten_rate)
  show ?thesis
    using a e l by (simp add: run_append run_Nil run_Cons handle_message_history)
qed

text \<open>
  The cut is also skipped when an exception is raised after the assistant turn is stored:
  with a full history, a reply without content, or a reply whose first chunk cannot be
  sent, leaves 22 turns.
\<close>

lemma history_untrimmed_after_raise:
  "length (history
     (run init (exchanges 7 ten_exchanges @ [Message 7 ''m11'' 1100 BackendNoContent])) 7) = 22"
  "length (history
     (run init (exchanges 7 ten_exchanges
        @ [Message 7 ''m11'' 1100 (BackendReplyUnsent ''r11'' 0)])) 7) = 22"
proof -
  let ?s = "run init (exchanges 7 ten_exchanges)"
  have h: "history ?s 7 = trim (pairs ten_exchanges)"
    using history_successful [OF successful_ten] by (simp add: init_views ten_exchanges_def)
  have l: "length (history ?s 7) = 20"
    unfolding h by (simp add: trim_def length_pairs) (simp add: ten_exchanges_def)
  have a: "fst (rate_limit 7 1100 ?s) = Allowed"
    by (simp add: rate_limit_decision after_ten_rate)
  have e: "\<not> expired 7 1100 ?s"
    by (simp add: not_expired_recent after_ten_rate)
  have c: "chunks (clean_response ''r11'') = [''r11'']"
    by (simp add: clean_response_def boxed_open_def chunks.simps max_length_def)
  show "length (history
     (run init (exchanges 7 ten_exchanges @ [Message 7 ''m11'' 1100 BackendNoContent])) 7) = 22"
    using a e l by (simp add: run_append run_Nil run_Cons handle_message_history)
  show "length (history
     (run init (exchanges 7 ten_exchanges
        @ [Message 7 ''m11'' 1100 (BackendReplyUnsent ''r11'' 0)])) 7) = 22"
    using a e l by (simp add: run_append run_Nil run_Cons handle_message_history c)
qed

text \<open>
  C3, amended. A message that the rate limiter denies appends nothing to the history, calls
  no backend and leaves the user's count and window start unchanged. The inactivity block
  has run before the rate limiter, though: the last activity of the user is set to the
  arrival time of the message, and the history is emptied when the session had expired.
  Where the window start is not later than the last activity, as under a clock that never
  goes back, a denied message finds no expired session and leaves the history as it was.
\<close>

theorem denied_message_effect:
  "fst (rate_limit u t s) = Denied \<longrightarrow>
     history (fst (handle_message u m t b s)) u = (if expired u t s then [] else history s u)
     \<and> last_activity (fst (handle_message u m t b s)) u = t
     \<and> request_count (fst (handle_message u m t b s)) u = request_count s u
     \<and> window_start (fst (handle_message u m t b s)) u = window_start s u
     \<and> snd (handle_message u m t b s) =
         (if expired u t s then [Notify AutoReset] else []) @ [Notify RateLimitExceeded]
     \<and> (window_start s u \<le> last_activity s u \<longrightarrow>
          history (fst (handle_message u m t b s)) u = history s u)"
proof
  assume d: "fst (rate_limit u t s) = Denied"
  then have w: "t - window_start s u < 60" and c: "REQUEST_LIMIT \<le> request_count s u"
    by (simp_all add: rate_limit_decision split: if_splits)
  have h: "history (fst (handle_message u m t b s)) u = (if expired u t s then [] else history s u)"
    using d by (simp add: handle_message_history)
  have e: "\<not> expired u t s" if "window_start s u \<le> last_activity s u"
    using that w by (simp add: expired_iff INACTIVITY_TIMEOUT_def)
  show "history (fst (handle_message u m t b s)) u = (if expired u t s then [] else history s u)
     \<and> last_activity (fst (handle_message u m t b s)) u = t
     \<and> request_count (fst (handle_message u m t b s)) u = request_count s u
     \<and> window_start (fst (handle_message u m t b s)) u = window_start s u
     \<and> snd (handle_message u m t b s) =
         (if expired u t s then [Notify AutoReset] else []) @ [Notify RateLimitExceeded]
     \<and> (window_start s u \<le> last_activity s u \<longrightarrow>
          history (fst (handle_message u m t b s)) u = history s u)"
    using d w c h e
    by (simp add: handle_message_last_activity handle_message_request_count
          handle_message_window_start rate_limit_count rate_limit_window handle_message_out)
qed

theorem denied_message_effect_witness:
  "fst (rate_limit 7 130
          (run init [Message 7 ''a'' 100 BackendError, Message 7 ''b'' 110 BackendError,
                     Message 7 ''c'' 120 (BackendReply ''r'')])) = Denied
   \<and> window_start (run init [Message 7 ''a'' 100 BackendError, Message 7 ''b'' 110 BackendError,
                     Message 7 ''c'' 120 (BackendReply ''r'')]) 7
       \<le> last_activity (run init [Message 7 ''a'' 100 BackendError, Message 7 ''b'' 110 BackendError,
                     Message 7 ''c'' 120 (BackendReply ''r'')]) 7
   \<and> history (fst (handle_message 7 ''d'' 130 BackendError
         (run init [Message 7 ''a'' 100 BackendError, Message 7 ''b'' 110 BackendError,
                     Message 7 ''c'' 120 (BackendReply ''r'')]))) 7
       = [\<lparr>role = User, content = Some ''a''\<rparr>, \<lparr>role = User, content = Some ''b''\<rparr>,
          \<lparr>role = User, content = Some ''c''\<rparr>, \<lparr>role = Assistant, content = Some ''r''\<rparr>]
   \<and> last_activity (fst (handle_message 7 ''d'' 130 BackendError
         (run init [Message 7 ''a'' 100 BackendError, Message 7 ''b'' 110 BackendError,
                     Message 7 ''c'' 120 (BackendReply ''r'')]))) 7 = 130
   \<and> snd (handle_message 7 ''d'' 130 BackendError
         (run init [Message 7 ''a'' 100 BackendError, Message 7 ''b'' 110 BackendError,
                     Message 7 ''c'' 120 (BackendReply ''r'')])) = [Notify RateLimitExceeded]"
  using denied_message_effect [of 7 130
      "run init [Message 7 ''a'' 100 BackendError, Message 7 ''b'' 110 BackendError,
                 Message 7 ''c'' 120 (BackendReply ''r'')]" "''d''" BackendError]
  by (simp add: eval_views trim_def)

text \<open>
  C3 as first stated, with the last activity untouched by a denied message, fails: three
  messages at 100, 110 and 120 use up the window, the fourth at 130 is denied, and the last
  activity moves from 120 to 130.
\<close>

theorem denied_updates_last_activity:
  "fst (rate_limit 7 130
          (run init [Message 7 ''a'' 100 BackendError, Message 7 ''b'' 110 BackendError,
                     Message 7 ''c'' 120 BackendError])) = Denied
   \<and> last_activity
        (run init [Message 7 ''a'' 100 BackendError, Message 7 ''b'' 110 BackendError,
                   Message 7 ''c'' 120 BackendError]) 7 = 120
   \<and> last_activity
        (fst (handle_message 7 ''d'' 130 BackendError
           (run init [Message 7 ''a'' 100 BackendError, Message 7 ''b'' 110 BackendError,
                      Message 7 ''c'' 120 BackendError]))) 7 = 130"
  by (simp add: eval_views)

text \<open>
  C4, amended. Eleven consecutive exchanges of one user, each admitted, answered and sent,
  of which none after the first finds the session expired (no message arrives more than
  1800 seconds after the one before), leave a history of exactly 20 turns, whatever the
  history was before: the user and assistant turns of the last ten exchanges, in their
  order. Each such exchange appends its two turns and keeps the last 20 entries when there
  are more than 20.
\<close>

theorem eleven_exchanges_keep_last_ten:
  "(fst (rate_limit u t1 s) = Allowed
    \<and> successful u (fst (handle_message u m1 t1 (BackendReply r1) s)) xs
    \<and> length xs = 10 \<longrightarrow>
      length (history (run s (exchanges u ((m1, t1, r1) # xs))) u) = 20
      \<and> history (run s (exchanges u ((m1, t1, r1) # xs))) u = pairs xs)
   \<and> (fst (rate_limit u t s') = Allowed \<and> \<not> expired u t s' \<longrightarrow>
      history (fst (handle_message u m t (BackendReply r) s')) u =
        (if length (history s' u) + 2 > 20
         then drop (length (history s' u) + 2 - 20)
                (history s' u @ [\<lparr>role = User, content = Some m\<rparr>, \<lparr>role = Assistant, content = Some r\<rparr>])
         else history s' u @ [\<lparr>role = User, content = Some m\<rparr>, \<lparr>role = Assistant, content = Some r\<rparr>]))"
proof (intro conjI impI)
  assume a: "fst (rate_limit u t1 s) = Allowed
    \<and> successful u (fst (handle_message u m1 t1 (BackendReply r1) s)) xs
    \<and> length xs = 10"
  let ?s1 = "fst (handle_message u m1 t1 (BackendReply r1) s)"
  from a have ne: "xs \<noteq> []" by auto
  have l: "length (pairs xs) = 20" using a by (simp add: length_pairs)
  have "history (run s (exchanges u ((m1, t1, r1) # xs))) u = history (run ?s1 (exchanges u xs)) u"
    by (simp add: exchanges_simps run_Cons)
  also have "\<dots> = trim (history ?s1 u @ pairs xs)"
    using a ne history_successful [of u ?s1 xs] by simp
  also have "\<dots> = pairs xs"
    using l by (simp add: trim_drop)
  finally show h: "history (run s (exchanges u ((m1, t1, r1) # xs))) u = pairs xs" .
  show "length (history (run s (exchanges u ((m1, t1, r1) # xs))) u) = 20"
    using h l by simp
next
  assume "fst (rate_limit u t s') = Allowed \<and> \<not> expired u t s'"
  then show "history (fst (handle_message u m t (BackendReply r) s')) u =
        (if length (history s' u) + 2 > 20
         then drop (length (history s' u) + 2 - 20)
                (history s' u @ [\<lparr>role = User, content = Some m\<rparr>, \<lparr>role = Assistant, content = Some r\<rparr>])
         else history s' u @ [\<lparr>role = User, content = Some m\<rparr>, \<lparr>role = Assistant, content = Some r\<rparr>])"
    by (simp add: handle_message_history trim_def)
qed

theorem eleven_exchanges_keep_last_ten_witness:
  "fst (rate_limit 7 10 init) = Allowed
   \<and> successful 7 (fst (handle_message 7 ''m0'' 10 (BackendReply ''r0'') init)) ten_exchanges
   \<and> length ten_exchanges = 10
   \<and> length (history (run init (exchanges 7 ((''m0'', 10, ''r0'') # ten_exchanges))) 7) = 20
   \<and> history (run init (exchanges 7 ((''m0'', 10, ''r0'') # ten_exchanges))) 7
       = pairs ten_exchanges
   \<and> \<not> expired 7 10 init
   \<and> history (fst (handle_message 7 ''m0'' 10 (BackendReply ''r0'') init)) 7 =
       [\<lparr>role = User, content = Some ''m0''\<rparr>, \<lparr>role = Assistant, content = Some ''r0''\<rparr>]"
proof -
  have a: "fst (rate_limit 7 10 init) = Allowed" and e: "\<not> expired 7 10 init"
    by (simp_all add: eval_rate not_expired_recent)
  have n: "length ten_exchanges = 10"
    by (simp add: ten_exchanges_def)
  show ?thesis
    using eleven_exchanges_keep_last_ten [of 7 10 init "''m0''" "''r0''" ten_exchanges 10 init
        "''m0''" "''r0''"]
      successful_after_first a e n
    by (simp add: init_views length_pairs)
qed

text \<open>
  C4 as first stated, for any eleven admitted and answered exchanges, fails when the session
  expires among them: of eleven exchanges with 2100 seconds between the fifth and the
  sixth, all admitted, the sixth empties the history, and 12 turns are left, not 20.
\<close>

theorem eleven_exchanges_with_gap:
  "admitted 7 init gap_exchanges
   \<and> length gap_exchanges = 11
   \<and> length (history (run init (exchanges 7 gap_exchanges)) 7) = 12"
proof -
  let ?five = "[(''m1'', 100, ''r1''), (''m2'', 200, ''r2''), (''m3'', 300, ''r3''),
                (''m4'', 400, ''r4''), (''m5'', 500, ''r5'')]"
  let ?rest = "[(''m7'', 2700, ''r7''), (''m8'', 2800, ''r8''), (''m9'', 2900, ''r9''),
                (''m10'', 3000, ''r10''), (''m11'', 3100, ''r11'')]"
  let ?s5 = "run init (exchanges 7 ?five)"
  let ?s6 = "fst (handle_message 7 ''m6'' 2600 (BackendReply ''r6'') ?s5)"
  have g: "gap_exchanges = ?five @ (''m6'', 2600, ''r6'') # ?rest"
    by (simp add: gap_exchanges_def)
  have adm: "admitted 7 init gap_exchanges"
    by (simp add: gap_exchanges_def eval_rate)
  have "successful 7 init ?five"
    by (simp add: eval_rate not_expired_recent)
  then have h5: "history ?s5 7 = trim (pairs ?five)"
    using history_successful [of 7 init ?five] by (simp add: init_views)
  have v5: "window_start ?s5 7 = 500" "last_activity ?s5 7 = 500"
    by (simp_all add: exchanges_simps run_Nil run_Cons eval_rate)
  have a6: "fst (rate_limit 7 2600 ?s5) = Allowed"
    by (simp add: rate_limit_decision v5)
  have e6: "expired 7 2600 ?s5"
    by (simp add: expired_iff INACTIVITY_TIMEOUT_def v5 h5 trim_def)
  have h6: "history ?s6 7 =
      [\<lparr>role = User, content = Some ''m6''\<rparr>, \<lparr>role = Assistant, content = Some ''r6''\<rparr>]"
    using a6 e6 by (simp add: handle_message_history trim_def)
  have "successful 7 ?s6 ?rest"
    by (simp add: exchanges_simps run_Nil run_Cons eval_rate not_expired_recent)
  then have "history (run ?s6 (exchanges 7 ?rest)) 7 = trim (history ?s6 7 @ pairs ?rest)"
    using history_successful [of 7 ?s6 ?rest] by simp
  then have "length (history (run ?s6 (exchanges 7 ?rest)) 7) = 12"
    by (simp add: h6 trim_def)
  moreover have "run init (exchanges 7 gap_exchanges) = run ?s6 (exchanges 7 ?rest)"
    unfolding g by (simp add: exchanges_append exchanges_simps run_append run_Nil run_Cons)
  ultimately show ?thesis
    using adm by (simp add: gap_exchanges_def)
qed



text \<open>
  C6, amended. \<^verbatim>\<open>reset\<close> answers that there is nothing to reset, and changes nothing,
  exactly when the user has no entry in \<open>CONVERSATIONS\<close>. When there is an entry, also one
  with an empty history, it sets the history to empty, sets the last activity to the
  current time and answers that the history has been reset.
\<close>

theorem reset_effect:
  "(CONVERSATIONS s u = None \<longrightarrow> reset u t s = (s, [Notify NoHistory]))
   \<and> (CONVERSATIONS s u \<noteq> None \<longrightarrow>
        snd (reset u t s) = [Notify ResetDone]
        \<and> CONVERSATIONS (fst (reset u t s)) u = Some []
        \<and> history (fst (reset u t s)) u = []
        \<and> last_activity (fst (reset u t s)) u = t)"
  by (auto simp: reset_def history_def last_activity_def dd_get_def)

theorem reset_effect_witness:
  "CONVERSATIONS init 7 = None
   \<and> reset 7 50 init = (init, [Notify NoHistory])
   \<and> CONVERSATIONS (run init [Message 7 ''hi'' 100 (BackendReply ''yo'')]) 7 \<noteq> None
   \<and> snd (reset 7 200 (run init [Message 7 ''hi'' 100 (BackendReply ''yo'')])) = [Notify ResetDone]
   \<and> history (fst (reset 7 200 (run init [Message 7 ''hi'' 100 (BackendReply ''yo'')]))) 7 = []
   \<and> last_activity (fst (reset 7 200 (run init [Message 7 ''hi'' 100 (BackendReply ''yo'')]))) 7 = 200"
proof -
  have a: "fst (rate_limit 7 100 init) = Allowed" by (simp add: eval_views)
  have n: "CONVERSATIONS init 7 = None" by (simp add: init_def)
  show ?thesis
    using reset_effect [of init 7 50]
      reset_effect [of "run init [Message 7 ''hi'' 100 (BackendReply ''yo'')]" 7 200]
      handle_message_entry [OF a, of "''hi''" "BackendReply ''yo''"] n
    by (simp add: run_Nil run_Cons)
qed

text \<open>
  C6 as first stated, with no effect on an empty history, fails: after a message and a
  first reset at 200 the history is empty, and a second reset at 300 still answers that the
  history has been reset and moves the last activity from 200 to 300.
\<close>

theorem reset_on_empty_history:
  "history (run init [Message 7 ''hi'' 100 (BackendReply ''yo''), Reset 7 200]) 7 = []
   \<and> last_activity (run init [Message 7 ''hi'' 100 (BackendReply ''yo''), Reset 7 200]) 7 = 200
   \<and> snd (reset 7 300 (run init [Message 7 ''hi'' 100 (BackendReply ''yo''), Reset 7 200]))
        = [Notify ResetDone]
   \<and> last_activity
        (fst (reset 7 300 (run init [Message 7 ''hi'' 100 (BackendReply ''yo''), Reset 7 200]))) 7
        = 300"
proof -
  let ?s1 = "fst (handle_message 7 ''hi'' 100 (BackendReply ''yo'') init)"
  let ?s2 = "fst (reset 7 200 ?s1)"
  have a: "fst (rate_limit 7 100 init) = Allowed" by (simp add: eval_views)
  have e1: "CONVERSATIONS ?s1 7 \<noteq> None"
    using a by (rule handle_message_entry)
  then have e2: "CONVERSATIONS ?s2 7 \<noteq> None"
    by (rule reset_entry)
  have r: "run init [Message 7 ''hi'' 100 (BackendReply ''yo''), Reset 7 200] = ?s2"
    by (simp add: run_Nil run_Cons)
  show ?thesis
    unfolding r using e1 e2 by (simp add: reset_out reset_last_activity reset_history)
qed

text \<open>
  C7. When an admitted message's backend call fails, the history afterwards is the history
  found (emptied first when the session had expired) followed by the user turn alone: no
  assistant turn is appended. The request count keeps the increment of the rate limiter.
  The backend is called once, and the user receives the error message.
\<close>

theorem backend_failure_effect:
  "fst (rate_limit u t s) = Allowed \<longrightarrow>
     history (fst (handle_message u m t BackendError s)) u =
       (if expired u t s then [] else history s u) @ [\<lparr>role = User, content = Some m\<rparr>]
     \<and> request_count (fst (handle_message u m t BackendError s)) u =
         request_count (snd (rate_limit u t s)) u
     \<and> request_count (fst (handle_message u m t BackendError s)) u =
         (if t - window_start s u < 60 then request_count s u + 1 else 1)
     \<and> snd (handle_message u m t BackendError s) =
         (if expired u t s then [Notify AutoReset] else [])
           @ [Notify Thinking,
              CallBackend (SYSTEM_PROMPT # (if expired u t s then [] else history s u)
                             @ [\<lparr>role = User, content = Some m\<rparr>]),
              Notify ErrorMessage]"
  by (auto simp: handle_message_history handle_message_request_count rate_limit_count
        rate_limit_decision handle_message_out split: if_splits)

theorem backend_failure_effect_witness:
  "fst (rate_limit 7 150 (run init [Message 7 ''hi'' 100 (BackendReply ''yo'')])) = Allowed
   \<and> request_count (run init [Message 7 ''hi'' 100 (BackendReply ''yo'')]) 7 = 1
   \<and> history (fst (handle_message 7 ''more'' 150 BackendError
        (run init [Message 7 ''hi'' 100 (BackendReply ''yo'')]))) 7 =
       [\<lparr>role = User, content = Some ''hi''\<rparr>, \<lparr>role = Assistant, content = Some ''yo''\<rparr>,
        \<lparr>role = User, content = Some ''more''\<rparr>]
   \<and> request_count (fst (handle_message 7 ''more'' 150 BackendError
        (run init [Message 7 ''hi'' 100 (BackendReply ''yo'')]))) 7 = 2"
  using backend_failure_effect [of 7 150 "run init [Message 7 ''hi'' 100 (BackendReply ''yo'')]"
      "''more''"]
  by (simp add: eval_views trim_def)




text \<open>
  C9. A request that arrives 60 seconds or more after the user's window start (the boundary
  included) is allowed, starts a new window at the current time and leaves the count at 1:
  in the rate-limiting block, and in the handlers of both versions of the bot.
\<close>

theorem fresh_window_after_60s:
  fixes s :: bot_state and r :: "'a rate_state_scheme" and r1 :: rate_state
  shows
  "(60 \<le> t - window_start r u \<longrightarrow>
      fst (rate_limit u t r) = Allowed
      \<and> window_start (snd (rate_limit u t r)) u = t
      \<and> request_count (snd (rate_limit u t r)) u = 1)
   \<and> (60 \<le> t - window_start s u \<longrightarrow>
      Notify RateLimitExceeded \<notin> set (snd (handle_message u m t b s))
      \<and> window_start (fst (handle_message u m t b s)) u = t
      \<and> request_count (fst (handle_message u m t b s)) u = 1)
   \<and> (60 \<le> t - window_start r1 u \<longrightarrow>
      Notify RateLimitExceeded \<notin> set (snd (handle_message_v1 u m t b r1))
      \<and> window_start (fst (handle_message_v1 u m t b r1)) u = t
      \<and> request_count (fst (handle_message_v1 u m t b r1)) u = 1)"
  by (auto simp: rate_limit_decision rate_limit_window rate_limit_count
        handle_message_out handle_message_window_start handle_message_request_count
        handle_message_v1_out handle_message_v1_state delivery_no_rate_limit_notice)

theorem fresh_window_after_60s_witness:
  "60 \<le> 160 - window_start (snd (rate_limit 7 100 init)) 7
   \<and> fst (rate_limit 7 160 (snd (rate_limit 7 100 init))) = Allowed
   \<and> window_start (snd (rate_limit 7 160 (snd (rate_limit 7 100 init)))) 7 = 160
   \<and> request_count (snd (rate_limit 7 160 (snd (rate_limit 7 100 init)))) 7 = 1
   \<and> Notify RateLimitExceeded
        \<notin> set (snd (handle_message 7 ''hi'' 160 BackendError (snd (rate_limit 7 100 init))))
   \<and> request_count (fst (handle_message 7 ''hi'' 160 BackendError (snd (rate_limit 7 100 init)))) 7 = 1
   \<and> 60 \<le> 160 - window_start (snd (rate_limit 7 100 init_v1)) 7
   \<and> Notify RateLimitExceeded
        \<notin> set (snd (handle_message_v1 7 ''hi'' 160 BackendError (snd (rate_limit 7 100 init_v1))))
   \<and> request_count (fst (handle_message_v1 7 ''hi'' 160 BackendError (snd (rate_limit 7 100 init_v1)))) 7 = 1"
proof -
  have w0: "window_start init 7 = 0" "window_start init_v1 7 = 0"
    by (simp_all add: init_def init_v1_def window_start_def dd_get_def)
  have w1: "window_start (snd (rate_limit 7 100 init)) 7 = 100"
    "window_start (snd (rate_limit 7 100 init_v1)) 7 = 100"
    by (simp_all add: rate_limit_window w0)
  show ?thesis
    using fresh_window_after_60s [of 160 "snd (rate_limit 7 100 init)" 7
        "snd (rate_limit 7 100 init)" "''hi''" BackendError "snd (rate_limit 7 100 init_v1)"]
    by (simp add: w1)
qed



text \<open>
  Removing the occurrences can join the text around them into a new \<^verbatim>\<open>\boxed{\<close>, which
  stays: \<^verbatim>\<open>str.replace\<close> makes one pass.
\<close>

lemma clean_response_joins:
  "clean_response (CHR 0x5C # ''box'' @ boxed_open @ ''ed{'') = boxed_open"
  by (simp add: clean_response_def boxed_open_def)

end
